theory Spec2Isabelle
  imports Main
begin

section \<open>Python values, errors and containers\<close>

text \<open>
  The values that reach an element parameter are not validated on assignment
  (\<open>ParameterDescriptor.__set__\<close> stores the raw value), so a slot may hold any Python
  object. The code observes a stored value in four ways only: \<open>is not None\<close>,
  \<open>str(value)\<close>, \<open>bool(value)\<close> and iteration. \<open>PObj s t it\<close> stands for an object
  of any other class (a unit value, a float, a tuple): \<open>s\<close> is what \<open>str\<close> returns,
  \<open>t\<close> its truth value, \<open>it\<close> its items when it is iterable.
\<close>

datatype pyval =
    PNone
  | PBool bool
  | PInt int
  | PStr string
  | PObj string bool "pyval list option"

datatype error =
    TypeError
  | AttributeError string
  | NotImplementedError
  | IndexError string
  | NameError_element_defined string
  | NameError_nodes_not_connected "string set"

text \<open>
  \<open>NameError_element_defined n\<close> is \<open>NameError("Element name n is already defined")\<close>;
  \<open>NameError_nodes_not_connected S\<close> is
  \<open>NameError("SubCircuit Nodes S are not connected")\<close>.
\<close>

fun str_nat :: "nat \<Rightarrow> string" where
  "str_nat n =
     (if n < 10 then [''0123456789'' ! n]
      else str_nat (n div 10) @ [''0123456789'' ! (n mod 10)])"

declare str_nat.simps [simp del]

definition str_int :: "int \<Rightarrow> string" where
  "str_int i = (if i < 0 then CHR ''-'' # str_nat (nat (- i)) else str_nat (nat i))"

fun py_str :: "pyval \<Rightarrow> string" where
  "py_str PNone = ''None''"
| "py_str (PBool b) = (if b then ''True'' else ''False'')"
| "py_str (PInt i) = str_int i"
| "py_str (PStr s) = s"
| "py_str (PObj s t it) = s"

fun py_bool :: "pyval \<Rightarrow> bool" where
  "py_bool PNone = False"
| "py_bool (PBool b) = b"
| "py_bool (PInt i) = (i \<noteq> 0)"
| "py_bool (PStr s) = (s \<noteq> [])"
| "py_bool (PObj s t it) = t"

fun py_iter :: "pyval \<Rightarrow> error + pyval list" where
  "py_iter (PStr s) = Inr (map (\<lambda>c. PStr [c]) s)"
| "py_iter (PObj s t (Some items)) = Inr items"
| "py_iter v = Inl TypeError"

text \<open>\<open>sep.join(items)\<close> on strings.\<close>

fun str_join :: "string \<Rightarrow> string list \<Rightarrow> string" where
  "str_join sep [] = []"
| "str_join sep [x] = x"
| "str_join sep (x # y # ys) = x @ sep @ str_join sep (y # ys)"

text \<open>
  A list comprehension whose body may raise: the first exception, in iteration order,
  ends the evaluation.
\<close>

fun collect :: "(error + 'a) list \<Rightarrow> error + 'a list" where
  "collect [] = Inr []"
| "collect (Inl e # rs) = Inl e"
| "collect (Inr x # rs) = (case collect rs of Inl e \<Rightarrow> Inl e | Inr xs \<Rightarrow> Inr (x # xs))"

text \<open>
  A \<open>dict\<close> is an association list with distinct keys, in its iteration order. Python 2
  does not fix where a new key lands in that order; \<open>dict_set\<close> puts it last, and the
  theorems below hold for every association list, hence for every iteration order.
  A \<open>set\<close> of strings that is iterated for rendering is a duplicate-free list.
\<close>

definition dict_has :: "'k \<Rightarrow> ('k \<times> 'v) list \<Rightarrow> bool" where
  "dict_has k d = (k \<in> set (map fst d))"

fun dict_set :: "'k \<Rightarrow> 'v \<Rightarrow> ('k \<times> 'v) list \<Rightarrow> ('k \<times> 'v) list" where
  "dict_set k v [] = [(k, v)]"
| "dict_set k v ((k', v') # kvs) =
     (if k = k' then (k, v) # kvs else (k', v') # dict_set k v kvs)"

definition set_add :: "'a \<Rightarrow> 'a list \<Rightarrow> 'a list" where
  "set_add x xs = (if x \<in> set xs then xs else xs @ [x])"

section \<open>String helpers\<close>

text \<open>
  \<open>Netlist.py\<close> imports \<open>join_list\<close>, \<open>join_lines\<close> and \<open>join_dict\<close> from
  \<open>Tools.StringTools\<close>, which is not part of the source at hand. The three functions
  below take the items already converted by \<open>str\<close>.
\<close>

text \<open>
  Modelled from the spec: \<open>join_list\<close> is missing; the spec has the tokens of a line
  joined by a single space.
\<close>

definition join_list :: "string list \<Rightarrow> string" where
  "join_list items = str_join '' '' items"

text \<open>
  Modelled from the spec: \<open>join_lines\<close> is missing; the spec has the lines joined by a
  newline, each behind the prefix of its directive.
\<close>

definition join_lines :: "string \<Rightarrow> string list \<Rightarrow> string" where
  "join_lines prefix items = str_join [CHR 0x0A] (map (\<lambda>item. prefix @ item) items)"

text \<open>
  Modelled from the spec: \<open>join_dict\<close> is missing; the spec has the parameters of a
  model line as \<open>k=v\<close> pairs separated by a comma and a space.
\<close>

definition join_dict :: "(string \<times> pyval) list \<Rightarrow> string" where
  "join_dict d = str_join '', '' (map (\<lambda>(k, v). k @ ''='' @ py_str v) d)"

section \<open>Parameter descriptors\<close>

datatype positional_class =
    PositionalElementParameter
  | FloatPositionalParameter
  | ExpressionPositionalParameter
  | ElementNamePositionalParameter
  | ModelPositionalParameter
  | InitialStatePositionalParameter

datatype element_parameter_class =
    ElementParameter
  | KeyValueParameter
  | IntKeyParameter
  | FloatKeyParameter
  | FloatPairKeyParameter
  | FlagKeyParameter
  | BoolKeyParameter
  | ExpressionKeyParameter

text \<open>
  A descriptor object as its constructor builds it. \<open>Positional c position default
  key_parameter\<close> is an instance of a subclass of \<open>PositionalElementParameter\<close>,
  \<open>Keyed c spice_name default\<close> one of a subclass of \<open>ElementParameter\<close>.
\<close>

datatype descriptor =
    Positional positional_class int pyval bool
  | Keyed element_parameter_class string pyval

fun default_value :: "descriptor \<Rightarrow> pyval" where
  "default_value (Positional c pos d k) = d"
| "default_value (Keyed c sn d) = d"

fun position :: "descriptor \<Rightarrow> int" where
  "position (Positional c pos d k) = pos"
| "position (Keyed c sn d) = 0"

fun key_parameter :: "descriptor \<Rightarrow> bool" where
  "key_parameter (Positional c pos d k) = k"
| "key_parameter (Keyed c sn d) = False"

fun is_positional :: "descriptor \<Rightarrow> bool" where
  "is_positional (Positional c pos d k) = True"
| "is_positional (Keyed c sn d) = False"

text \<open>
  A parameter is a descriptor together with the \<open>attribute_name\<close> that the metaclass
  writes into it.
\<close>

type_synonym parameter = "string \<times> descriptor"

section \<open>The metaclass\<close>

text \<open>
  What a class namespace binds a name to: a parameter descriptor or anything else (a
  method, a constant).
\<close>

datatype attribute =
    Descriptor descriptor
  | Other

text \<open>
  An element class after the metaclass has run: its \<open>prefix\<close> (\<open>None\<close> in the base
  class \<open>Element\<close>), the three tables that the metaclass adds to the namespace, and the
  names of the read-only properties that the class has or inherits.
\<close>

record element_class =
  prefix :: "string option"
  positional_parameters :: "parameter list"
  optional_parameters :: "parameter list"
  parameters_from_args :: "parameter list"
  properties :: "string list"

text \<open>
  \<open>ElementParameterMetaClass.__new__\<close>. \<open>attributes\<close> is the class namespace, a plain
  \<open>dict\<close>, given in the order in which \<open>iteritems\<close> yields it. The two ordered
  dictionaries collect the descriptors in that order. \<open>pfx\<close> and \<open>props\<close> are the prefix
  and the property names of the class being created.
\<close>

definition collect_positional :: "(string \<times> attribute) list \<Rightarrow> parameter list" where
  "collect_positional attributes =
     concat (map (\<lambda>(attribute_name, obj).
                    case obj of
                      Descriptor d \<Rightarrow> (if is_positional d then [(attribute_name, d)] else [])
                    | _ \<Rightarrow> [])
                 attributes)"

definition collect_parameters :: "(string \<times> attribute) list \<Rightarrow> parameter list" where
  "collect_parameters attributes =
     concat (map (\<lambda>(attribute_name, obj).
                    case obj of
                      Descriptor d \<Rightarrow> (if is_positional d then [] else [(attribute_name, d)])
                    | _ \<Rightarrow> [])
                 attributes)"

text \<open>
  \<open>sorted\<close> compares two positional descriptors with
  \<open>PositionalElementParameter.__cmp__\<close>, which is \<open>cmp(self.key_parameter,
  other.key_parameter)\<close>, and is stable; \<open>sort_key\<close> is the stable sort on the key
  \<open>key_parameter\<close> (\<open>False < True\<close>, as in Python).
\<close>

definition sorted_parameters :: "parameter list \<Rightarrow> parameter list" where
  "sorted_parameters ps = sort_key (\<lambda>p. key_parameter (snd p)) ps"

definition ElementParameterMetaClass_new ::
    "string option \<Rightarrow> string list \<Rightarrow> (string \<times> attribute) list \<Rightarrow> element_class" where
  "ElementParameterMetaClass_new pfx props attributes =
     (let positional = collect_positional attributes;
          parameters = collect_parameters attributes
      in \<lparr> prefix = pfx,
           positional_parameters = positional,
           optional_parameters = parameters,
           parameters_from_args =
             filter (\<lambda>parameter. \<not> key_parameter (snd parameter))
                    (sorted_parameters positional),
           properties = props \<rparr>)"

section \<open>Pins and elements\<close>

text \<open>
  Elements and pins are objects that are shared and mutated in place (a pin is reached
  from its element, an element from every netlist and node that holds it), so they
  live in a store and are referred to by their index in it. A node name is a string,
  as in the data model of the specification.

  \<open>pin_element\<close>, \<open>pin_name\<close>, \<open>pin_node\<close> are \<open>Pin._element\<close>, \<open>Pin._name\<close>,
  \<open>Pin._node\<close>; \<open>e_name\<close> and \<open>e_pins\<close> are \<open>Element._name\<close> and \<open>Element._pins\<close>,
  and \<open>e_dict\<close> is the rest of the instance dictionary, where a parameter
  \<open>x\<close> is stored under \<open>_x\<close>. Names of parameters and of keyword arguments are taken
  not to shadow \<open>_name\<close>, \<open>_pins\<close> or an attribute of the class other than a
  descriptor or a property.
\<close>

record pin =
  pin_element :: nat
  pin_name :: string
  pin_node :: string

record element =
  e_class :: element_class
  e_name :: string
  e_pins :: "nat list"
  e_dict :: "(string \<times> pyval) list"

record world =
  elements :: "element list"
  pins :: "pin list"

definition ParameterDescriptor_get :: "element \<Rightarrow> parameter \<Rightarrow> pyval" where
  "ParameterDescriptor_get instance p =
     (case map_of (e_dict instance) (''_'' @ fst p) of
        Some v \<Rightarrow> v
      | None \<Rightarrow> default_value (snd p))"

definition ParameterDescriptor_set :: "element \<Rightarrow> parameter \<Rightarrow> pyval \<Rightarrow> element" where
  "ParameterDescriptor_set instance p v =
     instance\<lparr>e_dict := dict_set (''_'' @ fst p) v (e_dict instance)\<rparr>"

text \<open>
  \<open>nonzero\<close>: the base class tests \<open>is not None\<close>; \<open>FlagKeyParameter\<close> and
  \<open>BoolKeyParameter\<close> override it with \<open>bool\<close> of the value.
\<close>

fun nonzero :: "element \<Rightarrow> parameter \<Rightarrow> bool" where
  "nonzero instance (an, Positional c pos d k) =
     (ParameterDescriptor_get instance (an, Positional c pos d k) \<noteq> PNone)"
| "nonzero instance (an, Keyed c sn d) =
     (if c = FlagKeyParameter \<or> c = BoolKeyParameter
      then py_bool (ParameterDescriptor_get instance (an, Keyed c sn d))
      else ParameterDescriptor_get instance (an, Keyed c sn d) \<noteq> PNone)"

text \<open>
  \<open>bool(self)\<close> of a descriptor object, as \<open>KeyValueParameter.to_str\<close> asks: no
  descriptor class defines \<open>__nonzero__\<close> or \<open>__len__\<close> (the method is called
  \<open>nonzero\<close>), so Python's default applies and the object is true.
\<close>

definition descriptor_bool :: "descriptor \<Rightarrow> bool" where
  "descriptor_bool d = True"

definition str_value :: "element \<Rightarrow> parameter \<Rightarrow> element_parameter_class \<Rightarrow> error + string" where
  "str_value instance p c =
     (if c = FloatPairKeyParameter
      then (case py_iter (ParameterDescriptor_get instance p) of
              Inl err \<Rightarrow> Inl err
            | Inr vs \<Rightarrow> Inr (str_join '','' (map py_str vs)))
      else Inr (py_str (ParameterDescriptor_get instance p)))"

text \<open>
  \<open>to_str\<close>. Every positional class inherits \<open>PositionalElementParameter.to_str\<close>
  (\<open>InitialStatePositionalParameter\<close> defines \<open>to__str_\<close>, which nothing calls).
\<close>

fun to_str :: "element \<Rightarrow> parameter \<Rightarrow> error + string" where
  "to_str instance (an, Positional c pos d k) =
     Inr (py_str (ParameterDescriptor_get instance (an, Positional c pos d k)))"
| "to_str instance (an, Keyed c sn d) =
     (if c = ElementParameter then Inl NotImplementedError
      else if c = FlagKeyParameter
      then Inr (if nonzero instance (an, Keyed c sn d) then ''off'' else [])
      else if c = BoolKeyParameter
      then Inr (if nonzero instance (an, Keyed c sn d) then ''0'' else ''1'')
      else if descriptor_bool (Keyed c sn d)
      then (case str_value instance (an, Keyed c sn d) c of
              Inl err \<Rightarrow> Inl err
            | Inr s \<Rightarrow> Inr (sn @ ''='' @ s))
      else Inr [])"

text \<open>
  \<open>setattr(self, key, value)\<close> on an element: a descriptor of the class takes the
  value through \<open>__set__\<close>, a property has no setter, any other name becomes an
  instance attribute.
\<close>

definition Element_setattr :: "element \<Rightarrow> string \<Rightarrow> pyval \<Rightarrow> error + element" where
  "Element_setattr self key v =
     (case map_of (positional_parameters (e_class self) @ optional_parameters (e_class self)) key of
        Some d \<Rightarrow> Inr (ParameterDescriptor_set self (key, d) v)
      | None \<Rightarrow>
          if key \<in> set (properties (e_class self)) then Inl (AttributeError key)
          else Inr (self\<lparr>e_dict := dict_set key v (e_dict self)\<rparr>))"

text \<open>
  \<open>Element.__init__\<close>. The first loop runs over \<open>zip(self.parameters_from_args, args)\<close>;
  the test of the second loop is Python's \<open>(key in self.positional_parameters) or
  self.optional_parameters\<close>.
\<close>

fun bind_args :: "element \<Rightarrow> (parameter \<times> pyval) list \<Rightarrow> element" where
  "bind_args self [] = self"
| "bind_args self ((parameter, v) # rest) =
     bind_args (ParameterDescriptor_set self parameter v) rest"

fun bind_kwargs :: "element \<Rightarrow> (string \<times> pyval) list \<Rightarrow> error + element" where
  "bind_kwargs self [] = Inr self"
| "bind_kwargs self ((key, v) # rest) =
     (if dict_has key (positional_parameters (e_class self))
         \<or> optional_parameters (e_class self) \<noteq> []
      then (case Element_setattr self key v of
              Inl err \<Rightarrow> Inl err
            | Inr self' \<Rightarrow> bind_kwargs self' rest)
      else bind_kwargs self rest)"

definition Element_init ::
    "element_class \<Rightarrow> pyval \<Rightarrow> nat list \<Rightarrow> pyval list \<Rightarrow> (string \<times> pyval) list
       \<Rightarrow> error + element" where
  "Element_init cls name pins_arg args kwargs =
     bind_kwargs
       (bind_args \<lparr>e_class = cls, e_name = py_str name, e_pins = pins_arg, e_dict = []\<rparr>
                  (zip (parameters_from_args cls) args))
       kwargs"

definition Element_name :: "element \<Rightarrow> error + string" where
  "Element_name self =
     (case prefix (e_class self) of
        None \<Rightarrow> Inl TypeError
      | Some p \<Rightarrow> Inr (p @ e_name self))"

definition Element_nodes :: "world \<Rightarrow> element \<Rightarrow> string list" where
  "Element_nodes w self = map (\<lambda>p. pin_node (pins w ! p)) (e_pins self)"

definition format_node_names :: "world \<Rightarrow> element \<Rightarrow> error + string" where
  "format_node_names w self =
     (case Element_name self of
        Inl err \<Rightarrow> Inl err
      | Inr n \<Rightarrow> Inr (join_list [n, join_list (Element_nodes w self)]))"

definition parameter_iterator :: "element \<Rightarrow> parameter list" where
  "parameter_iterator self =
     filter (nonzero self)
            (positional_parameters (e_class self) @ optional_parameters (e_class self))"

definition spice_tokens :: "element \<Rightarrow> error + string list" where
  "spice_tokens self = collect (map (to_str self) (parameter_iterator self))"

definition format_spice_parameters :: "element \<Rightarrow> error + string" where
  "format_spice_parameters self =
     (case spice_tokens self of
        Inl err \<Rightarrow> Inl err
      | Inr tokens \<Rightarrow> Inr (join_list tokens))"

definition Element_str :: "world \<Rightarrow> element \<Rightarrow> error + string" where
  "Element_str w self =
     (case format_node_names w self of
        Inl err \<Rightarrow> Inl err
      | Inr a \<Rightarrow>
          (case format_spice_parameters self of
             Inl err \<Rightarrow> Inl err
           | Inr b \<Rightarrow> Inr (join_list [a, b])))"

text \<open>
  The three constructor shapes. The object \<open>self\<close> exists before \<open>__init__\<close> runs; its
  address is the next free one. When \<open>__init__\<close> raises, the objects allocated so far
  are unreachable and the store is left as it was.
\<close>

definition Element_properties :: "string list" where
  "Element_properties = [''name'', ''pins'', ''nodes'']"

definition TwoPinElement_properties :: "string list" where
  "TwoPinElement_properties = Element_properties @ [''plus'', ''minus'']"

definition TwoPortElement_properties :: "string list" where
  "TwoPortElement_properties =
     Element_properties @ [''output_plus'', ''output_minus'', ''input_plus'', ''input_minus'']"

definition new_Element ::
    "world \<Rightarrow> element_class \<Rightarrow> pyval \<Rightarrow> nat list \<Rightarrow> pyval list \<Rightarrow> (string \<times> pyval) list
       \<Rightarrow> (error + nat) \<times> world" where
  "new_Element w cls name pins_arg args kwargs =
     (case Element_init cls name pins_arg args kwargs of
        Inl err \<Rightarrow> (Inl err, w)
      | Inr self \<Rightarrow> (Inr (length (elements w)), w\<lparr>elements := elements w @ [self]\<rparr>))"

definition new_TwoPinElement ::
    "world \<Rightarrow> element_class \<Rightarrow> pyval \<Rightarrow> string \<Rightarrow> string \<Rightarrow> pyval list
       \<Rightarrow> (string \<times> pyval) list \<Rightarrow> (error + nat) \<times> world" where
  "new_TwoPinElement w cls name node_plus node_minus args kwargs =
     (let self = length (elements w);
          p = length (pins w);
          new_pins = [\<lparr>pin_element = self, pin_name = ''plus'', pin_node = node_plus\<rparr>,
                      \<lparr>pin_element = self, pin_name = ''minus'', pin_node = node_minus\<rparr>]
      in case Element_init cls name [p, p + 1] args kwargs of
           Inl err \<Rightarrow> (Inl err, w)
         | Inr obj \<Rightarrow>
             (Inr self, \<lparr>elements = elements w @ [obj], pins = pins w @ new_pins\<rparr>))"

definition new_TwoPortElement ::
    "world \<Rightarrow> element_class \<Rightarrow> pyval \<Rightarrow> string \<Rightarrow> string \<Rightarrow> string \<Rightarrow> string \<Rightarrow> pyval list
       \<Rightarrow> (string \<times> pyval) list \<Rightarrow> (error + nat) \<times> world" where
  "new_TwoPortElement w cls name input_node_plus input_node_minus
                      output_node_plus output_node_minus args kwargs =
     (let self = length (elements w);
          p = length (pins w);
          new_pins =
            [\<lparr>pin_element = self, pin_name = ''output_plus'', pin_node = output_node_plus\<rparr>,
             \<lparr>pin_element = self, pin_name = ''output_minus'', pin_node = output_node_minus\<rparr>,
             \<lparr>pin_element = self, pin_name = ''input_plus'', pin_node = input_node_plus\<rparr>,
             \<lparr>pin_element = self, pin_name = ''input_minus'', pin_node = input_node_minus\<rparr>]
      in case Element_init cls name [p, p + 1, p + 2, p + 3] args kwargs of
           Inl err \<Rightarrow> (Inl err, w)
         | Inr obj \<Rightarrow>
             (Inr self, \<lparr>elements = elements w @ [obj], pins = pins w @ new_pins\<rparr>))"

section \<open>Nodes, device models and the netlist\<close>

record node =
  node_name :: string
  node_elements :: "nat set"

definition Node_init :: "string \<Rightarrow> node" where
  "Node_init name = \<lparr>node_name = name, node_elements = {}\<rparr>"

definition Node_add_element :: "node \<Rightarrow> nat \<Rightarrow> node" where
  "Node_add_element self element = self\<lparr>node_elements := insert element (node_elements self)\<rparr>"

record device_model =
  dm_name :: string
  dm_model_type :: string
  dm_parameters :: "(string \<times> pyval) list"

definition DeviceModel_init :: "pyval \<Rightarrow> pyval \<Rightarrow> (string \<times> pyval) list \<Rightarrow> device_model" where
  "DeviceModel_init name modele_type parameters =
     \<lparr>dm_name = py_str name, dm_model_type = py_str modele_type, dm_parameters = parameters\<rparr>"

definition DeviceModel_str :: "device_model \<Rightarrow> string" where
  "DeviceModel_str self =
     ''.model '' @ dm_name self @ '' '' @ dm_model_type self
       @ '' ('' @ join_dict (dm_parameters self) @ '')''"

text \<open>
  \<open>n_ground\<close>, \<open>n_elements\<close>, \<open>n_models\<close>, \<open>n_dirty\<close>, \<open>n_nodes\<close> are the attributes
  \<open>_ground\<close>, \<open>_elements\<close>, \<open>_models\<close>, \<open>_dirty\<close>, \<open>_nodes\<close> of \<open>Netlist\<close>. The
  dictionary of elements holds references into the store.
\<close>

record netlist =
  n_ground :: pyval
  n_elements :: "(string \<times> nat) list"
  n_models :: "(string \<times> device_model) list"
  n_dirty :: bool
  n_nodes :: "(string \<times> node) list"

definition Netlist_init :: netlist where
  "Netlist_init =
     \<lparr>n_ground = PNone, n_elements = [], n_models = [], n_dirty = True, n_nodes = []\<rparr>"

definition nl :: string where
  "nl = [CHR 0x0A]"

definition element_iterator :: "'a netlist_scheme \<Rightarrow> nat list" where
  "element_iterator self = map snd (n_elements self)"

definition model_iterator :: "'a netlist_scheme \<Rightarrow> device_model list" where
  "model_iterator self = map snd (n_models self)"

definition Netlist_str :: "world \<Rightarrow> 'a netlist_scheme \<Rightarrow> error + string" where
  "Netlist_str w self =
     (case collect (map (\<lambda>a. Element_str w (elements w ! a)) (element_iterator self)) of
        Inl err \<Rightarrow> Inl err
      | Inr lines \<Rightarrow>
          (let netlist = join_lines [] lines @ nl
           in if n_models self \<noteq> []
              then Inr (netlist @ join_lines [] (map DeviceModel_str (model_iterator self)) @ nl)
              else Inr netlist))"

definition Netlist_add_element ::
    "world \<Rightarrow> 'a netlist_scheme \<Rightarrow> nat \<Rightarrow> (error + unit) \<times> 'a netlist_scheme" where
  "Netlist_add_element w self element =
     (case Element_name (elements w ! element) of
        Inl err \<Rightarrow> (Inl err, self)
      | Inr name \<Rightarrow>
          if \<not> dict_has name (n_elements self)
          then (Inr (), self\<lparr>n_elements := dict_set name element (n_elements self),
                              n_dirty := True\<rparr>)
          else (Inl (NameError_element_defined name), self))"

definition Netlist_model ::
    "'a netlist_scheme \<Rightarrow> pyval \<Rightarrow> pyval \<Rightarrow> (string \<times> pyval) list \<Rightarrow> 'a netlist_scheme" where
  "Netlist_model self name modele_type parameters =
     (let model = DeviceModel_init name modele_type parameters
      in if \<not> dict_has (dm_name model) (n_models self)
         then self\<lparr>n_models := dict_set (dm_name model) model (n_models self)\<rparr>
         else self)"

text \<open>
  The body of the inner loop of \<open>Netlist.nodes\<close>, for one node name of one element,
  and the rebuild of the index from an empty dictionary.
\<close>

definition register_node :: "nat \<Rightarrow> string \<Rightarrow> (string \<times> node) list \<Rightarrow> (string \<times> node) list" where
  "register_node element name index =
     (case map_of index name of
        None \<Rightarrow> dict_set name (Node_add_element (Node_init name) element) index
      | Some node \<Rightarrow> dict_set name (Node_add_element node element) index)"

definition rebuild_nodes :: "world \<Rightarrow> 'a netlist_scheme \<Rightarrow> (string \<times> node) list" where
  "rebuild_nodes w self =
     fold (\<lambda>element index.
             fold (register_node element) (Element_nodes w (elements w ! element)) index)
          (element_iterator self) []"

definition Netlist_nodes :: "world \<Rightarrow> 'a netlist_scheme \<Rightarrow> node list \<times> 'a netlist_scheme" where
  "Netlist_nodes w self =
     (if n_dirty self
      then (let index = rebuild_nodes w self
            in (map snd index, self\<lparr>n_nodes := index\<rparr>))
      else (map snd (n_nodes self), self))"

datatype item =
    ItemElement nat
  | ItemModel device_model
  | ItemNode string

definition Netlist_getitem :: "'a netlist_scheme \<Rightarrow> string \<Rightarrow> error + item" where
  "Netlist_getitem self attribute_name =
     (case map_of (n_elements self) attribute_name of
        Some element \<Rightarrow> Inr (ItemElement element)
      | None \<Rightarrow>
          (case map_of (n_models self) attribute_name of
             Some model \<Rightarrow> Inr (ItemModel model)
           | None \<Rightarrow>
               if dict_has attribute_name (n_nodes self) then Inr (ItemNode attribute_name)
               else Inl (IndexError attribute_name)))"

text \<open>\<open>Netlist.__getattr__\<close>, which Python calls for a name that is no regular attribute.\<close>

definition Netlist_getattr :: "'a netlist_scheme \<Rightarrow> string \<Rightarrow> error + item" where
  "Netlist_getattr self attribute_name =
     (case Netlist_getitem self attribute_name of
        Inl (IndexError k) \<Rightarrow> Inl (AttributeError attribute_name)
      | r \<Rightarrow> r)"

section \<open>Sub-circuits and circuits\<close>

record subcircuit = netlist +
  sc_name :: string
  external_nodes :: "string list"

text \<open>\<open>ground\<close> is \<open>kwargs.get('ground', 0)\<close>: \<open>None\<close> here when the keyword is absent.\<close>

definition SubCircuit_init :: "pyval \<Rightarrow> string list \<Rightarrow> pyval option \<Rightarrow> subcircuit" where
  "SubCircuit_init name nodes ground =
     \<lparr>n_ground = (case ground of None \<Rightarrow> PInt 0 | Some g \<Rightarrow> g),
      n_elements = [], n_models = [], n_dirty = True, n_nodes = [],
      sc_name = py_str name, external_nodes = nodes\<rparr>"

text \<open>
  \<open>nodes & element.nodes\<close> in \<open>check_nodes\<close>: the left operand is a \<open>set\<close>, the right one
  the \<open>list\<close> that \<open>Element.nodes\<close> builds. \<open>set.__and__\<close> returns \<open>NotImplemented\<close>
  for an operand that is not a set and \<open>list\<close> has no reflected \<open>__rand__\<close>, so the
  expression raises \<open>TypeError\<close> whatever the two collections hold.
\<close>

definition set_and_list :: "string set \<Rightarrow> string list \<Rightarrow> error + string set" where
  "set_and_list s xs = Inl TypeError"

text \<open>
  The loop of \<open>check_nodes\<close>. Had \<open>&\<close> returned a set, \<open>connected_nodes.add\<close> would raise
  \<open>TypeError\<close> on it as well, a \<open>set\<close> being unhashable; \<open>connected_nodes\<close> never
  receives a member.
\<close>

fun check_nodes_loop :: "world \<Rightarrow> string set \<Rightarrow> string set \<Rightarrow> nat list \<Rightarrow> error + string set" where
  "check_nodes_loop w nodes connected_nodes [] = Inr connected_nodes"
| "check_nodes_loop w nodes connected_nodes (element # rest) =
     (case set_and_list nodes (Element_nodes w (elements w ! element)) of
        Inl err \<Rightarrow> Inl err
      | Inr s \<Rightarrow> Inl TypeError)"

definition check_nodes :: "world \<Rightarrow> subcircuit \<Rightarrow> error + unit" where
  "check_nodes w self =
     (let nodes = set (external_nodes self)
      in case check_nodes_loop w nodes {} (element_iterator self) of
           Inl err \<Rightarrow> Inl err
         | Inr connected_nodes \<Rightarrow>
             (let not_connected_nodes = nodes - connected_nodes
              in if not_connected_nodes \<noteq> {}
                 then Inl (NameError_nodes_not_connected not_connected_nodes)
                 else Inr ()))"

definition SubCircuit_str :: "world \<Rightarrow> subcircuit \<Rightarrow> error + string" where
  "SubCircuit_str w self =
     (let netlist = ''.subckt '' @ sc_name self @ '' '' @ join_list (external_nodes self) @ nl
      in case Netlist_str w self of
           Inl err \<Rightarrow> Inl err
         | Inr body \<Rightarrow> Inr (netlist @ body @ ''.ends'' @ nl))"

text \<open>
  \<open>c_title\<close>, \<open>c_global_nodes\<close>, \<open>c_includes\<close>, \<open>c_parameters\<close>, \<open>c_subcircuits\<close> are \<open>title\<close>, \<open>_global_nodes\<close>,
  \<open>_includes\<close>, \<open>_parameters\<close>, \<open>_subcircuits\<close> of \<open>Circuit\<close>.
\<close>

record circuit = netlist +
  c_title :: string
  c_global_nodes :: "string list"
  c_includes :: "string list"
  c_parameters :: "(string \<times> string) list"
  c_subcircuits :: "(string \<times> subcircuit) list"

definition Circuit_init :: "pyval \<Rightarrow> pyval \<Rightarrow> string list \<Rightarrow> circuit" where
  "Circuit_init title_arg ground global_nodes_arg =
     \<lparr>n_ground = ground, n_elements = [], n_models = [], n_dirty = True, n_nodes = [],
      c_title = py_str title_arg, c_global_nodes = remdups global_nodes_arg, c_includes = [],
      c_parameters = [], c_subcircuits = []\<rparr>"

definition Circuit_include :: "circuit \<Rightarrow> string \<Rightarrow> circuit" where
  "Circuit_include self path = self\<lparr>c_includes := set_add path (c_includes self)\<rparr>"

definition Circuit_parameter :: "circuit \<Rightarrow> pyval \<Rightarrow> pyval \<Rightarrow> circuit" where
  "Circuit_parameter self name expression =
     self\<lparr>c_parameters := dict_set (py_str name) (py_str expression) (c_parameters self)\<rparr>"

definition Circuit_subcircuit :: "circuit \<Rightarrow> subcircuit \<Rightarrow> circuit" where
  "Circuit_subcircuit self sc = self\<lparr>c_subcircuits := dict_set (sc_name sc) sc (c_subcircuits self)\<rparr>"

definition subcircuit_iterator :: "circuit \<Rightarrow> subcircuit list" where
  "subcircuit_iterator self = map snd (c_subcircuits self)"

text \<open>
  \<open>Circuit.__str__\<close>. Iterating the dictionary \<open>_parameters\<close> yields its keys. The first
  four sections cannot raise; the sub-circuits are rendered before the netlist body.
\<close>

definition Circuit_head :: "circuit \<Rightarrow> string" where
  "Circuit_head self =
     (let netlist = ''.title '' @ c_title self @ nl;
          netlist = (if c_includes self \<noteq> []
                     then netlist @ join_lines ''.include '' (c_includes self) @ nl
                     else netlist);
          netlist = (if c_global_nodes self \<noteq> []
                     then netlist @ ''.global '' @ join_list (c_global_nodes self) @ nl
                     else netlist);
          netlist = (if c_parameters self \<noteq> []
                     then netlist @ join_lines ''.param '' (map fst (c_parameters self)) @ nl
                     else netlist)
      in netlist)"

definition Circuit_str :: "world \<Rightarrow> circuit \<Rightarrow> error + string" where
  "Circuit_str w self =
     (let netlist = Circuit_head self
      in case (if c_subcircuits self \<noteq> []
               then (case collect (map (SubCircuit_str w) (subcircuit_iterator self)) of
                       Inl err \<Rightarrow> Inl err
                     | Inr texts \<Rightarrow> Inr (netlist @ join_lines [] texts))
               else Inr netlist) of
           Inl err \<Rightarrow> Inl err
         | Inr netlist \<Rightarrow>
             (case Netlist_str w self of
                Inl err \<Rightarrow> Inl err
              | Inr body \<Rightarrow> Inr (netlist @ body @ ''.end'' @ nl)))"

section \<open>Element kinds and the current probe\<close>

text \<open>
  The concrete element kinds and the methods that create them on a netlist are defined
  in another module of the package, which is not part of the source at hand.
\<close>

text \<open>
  Modelled from the spec: the resistor class is missing; the spec describes it as a
  two-terminal element of prefix \<open>R\<close> with a positional resistance and the key-value
  fields \<open>tc1\<close> and \<open>tc2\<close>.
\<close>

definition Resistor :: element_class where
  "Resistor =
     ElementParameterMetaClass_new (Some ''R'') TwoPinElement_properties
       [(''resistance'', Descriptor (Positional FloatPositionalParameter 0 PNone False)),
        (''tc1'', Descriptor (Keyed FloatKeyParameter ''tc1'' PNone)),
        (''tc2'', Descriptor (Keyed FloatKeyParameter ''tc2'' PNone))]"




section \<open>Example states\<close>

text \<open>
  The store after \<open>R1 = Resistor(1, '1', '0', 1k)\<close>, where \<open>1k\<close> is a unit value whose string
  is \<open>1k\<close>, and after a second resistor of the same name between other nodes.
\<close>

definition empty_world :: world where
  "empty_world = \<lparr>elements = [], pins = []\<rparr>"

definition world_R1 :: world where
  "world_R1 =
     snd (new_TwoPinElement empty_world Resistor (PInt 1) ''1'' ''0'' [PObj ''1k'' True None] [])"

definition world_R1_R1 :: world where
  "world_R1_R1 =
     snd (new_TwoPinElement world_R1 Resistor (PInt 1) ''2'' ''3'' [PObj ''2k'' True None] [])"

text \<open>
  The circuit of the rendering example: title \<open>test\<close>, ground \<open>0\<close>, global node \<open>VCC\<close>,
  the include \<open>models.lib\<close>, and \<open>R1\<close> added.
\<close>

definition circuit_test0 :: circuit where
  "circuit_test0 = Circuit_include (Circuit_init (PStr ''test'') (PInt 0) [''VCC'']) ''models.lib''"

definition circuit_test :: circuit where
  "circuit_test = snd (Netlist_add_element world_R1 circuit_test0 0)"

text \<open>A netlist that holds \<open>R1\<close> and whose node collection has not been read.\<close>

definition netlist_R1 :: netlist where
  "netlist_R1 = snd (Netlist_add_element world_R1 Netlist_init 0)"

text \<open>
  The element class
  \<^verbatim>\<open>class X(Element): prefix = 'X'; a = ExpressionPositionalParameter(position=1);
  b = ExpressionPositionalParameter(position=0)\<close>.
  Its namespace dictionary yields the field \<open>a\<close>, declared at position 1, before the
  field \<open>b\<close>, declared at position 0 (the order of a Python 2 dictionary follows the
  hashes of the names).
\<close>

definition class_a_b :: element_class where
  "class_a_b =
     ElementParameterMetaClass_new (Some ''X'') Element_properties
       [(''a'', Descriptor (Positional ExpressionPositionalParameter 1 PNone False)),
        (''__module__'', Other),
        (''b'', Descriptor (Positional ExpressionPositionalParameter 0 PNone False)),
        (''prefix'', Other)]"

text \<open>
  An element class with one integer key-value field \<open>m\<close> of default 1, and the element
  of it built with no argument.
\<close>

definition class_m :: element_class where
  "class_m =
     ElementParameterMetaClass_new (Some ''X'') Element_properties
       [(''m'', Descriptor (Keyed IntKeyParameter ''m'' (PInt 1)))]"

definition element_unset :: element where
  "element_unset = \<lparr>e_class = class_m, e_name = ''1'', e_pins = [], e_dict = []\<rparr>"

text \<open>
  An element class with one boolean field \<open>noisy\<close>, and the elements of it built with
  \<open>noisy=False\<close> and with \<open>noisy=True\<close>.
\<close>

definition class_noisy :: element_class where
  "class_noisy =
     ElementParameterMetaClass_new (Some ''X'') Element_properties
       [(''noisy'', Descriptor (Keyed BoolKeyParameter ''noisy'' (PBool False)))]"

definition element_noisy_false :: element where
  "element_noisy_false =
     \<lparr>e_class = class_noisy, e_name = ''1'', e_pins = [],
      e_dict = [(''_noisy'', PBool False)]\<rparr>"

definition element_noisy_true :: element where
  "element_noisy_true =
     \<lparr>e_class = class_noisy, e_name = ''1'', e_pins = [],
      e_dict = [(''_noisy'', PBool True)]\<rparr>"

text \<open>
  A sub-circuit \<open>amp\<close> with the external nodes \<open>1\<close> and \<open>0\<close> that holds \<open>R1\<close>, which
  connects both, and the empty sub-circuit \<open>amp\<close> with the external nodes \<open>in\<close> and
  \<open>out\<close>.
\<close>

definition subcircuit_R1 :: subcircuit where
  "subcircuit_R1 =
     snd (Netlist_add_element world_R1 (SubCircuit_init (PStr ''amp'') [''1'', ''0''] None) 0)"

definition subcircuit_amp :: subcircuit where
  "subcircuit_amp = SubCircuit_init (PStr ''amp'') [''in'', ''out''] None"

text \<open>Whether \<open>nonzero\<close> of a descriptor tests the truth value rather than \<open>is not None\<close>.\<close>

fun tests_truth :: "descriptor \<Rightarrow> bool" where
  "tests_truth (Positional c pos d k) = False"
| "tests_truth (Keyed c sn d) = (c = FlagKeyParameter \<or> c = BoolKeyParameter)"

text \<open>
  The text of a netlist body in the words of the specification: every element line,
  joined by newlines, and, when there is a model, every model line
  \<open>.model name type (k=v, ...)\<close>. The text of a sub-circuit: the header line \<open>.subckt\<close>
  with the name and the external nodes, the body, the trailer line \<open>.ends\<close>.
\<close>

definition netlist_body_text :: "string list \<Rightarrow> device_model list \<Rightarrow> string" where
  "netlist_body_text lines models =
     str_join nl lines @ nl
     @ (if models = [] then []
        else str_join nl
               (map (\<lambda>m. ''.model '' @ dm_name m @ '' '' @ dm_model_type m
                            @ '' ('' @ join_dict (dm_parameters m) @ '')'') models) @ nl)"

definition subcircuit_text :: "subcircuit \<Rightarrow> string list \<Rightarrow> string" where
  "subcircuit_text sc lines =
     ''.subckt '' @ sc_name sc @ '' '' @ str_join '' '' (external_nodes sc) @ nl
     @ netlist_body_text lines (map snd (n_models sc))
     @ ''.ends'' @ nl"

text \<open>The rendered lines of the elements of a netlist, in the order of its dictionary.\<close>

definition element_lines :: "world \<Rightarrow> 'a netlist_scheme \<Rightarrow> error + string list" where
  "element_lines w self =
     collect (map (\<lambda>a. Element_str w (elements w ! a)) (map snd (n_elements self)))"

text \<open>A circuit \<open>t\<close> with nothing in it.\<close>

definition circuit_empty :: circuit where
  "circuit_empty = Circuit_init (PStr ''t'') (PInt 0) []"

text \<open>
  A circuit with every section: over the store of the two resistors, the circuit
  \<open>test\<close> with the include, the global node and the first resistor, a model \<open>D1\<close> of
  type \<open>D\<close> with the parameter \<open>n=1\<close>, a parameter \<open>gain\<close>, and the sub-circuit \<open>amp\<close>
  with the external nodes \<open>2\<close> and \<open>3\<close> that holds the second resistor.
\<close>

definition subcircuit_amp_R1 :: subcircuit where
  "subcircuit_amp_R1 =
     snd (Netlist_add_element world_R1_R1 (SubCircuit_init (PStr ''amp'') [''2'', ''3''] None) 1)"

definition circuit_full :: circuit where
  "circuit_full =
     Circuit_subcircuit
       (Circuit_parameter
          (Netlist_model (snd (Netlist_add_element world_R1_R1 circuit_test0 0))
             (PStr ''D1'') (PStr ''D'') [(''n'', PInt 1)])
          (PStr ''gain'') (PInt 1))
       subcircuit_amp_R1"



section \<open>Dictionaries and the example states\<close>

lemma dict_set_fresh: "\<not> dict_has k d \<Longrightarrow> dict_set k v d = d @ [(k, v)]"
  by (induction d) (auto simp: dict_has_def)

lemma map_of_dict_set: "map_of (dict_set k v d) k' = (if k' = k then Some v else map_of d k')"
  by (induction d) auto

lemma dict_has_map_of: "dict_has k d = (map_of d k \<noteq> None)"
  by (induction d) (auto simp: dict_has_def)

lemma dict_has_dict_set: "dict_has k' (dict_set k v d) = (k' = k \<or> dict_has k' d)"
  by (simp add: dict_has_map_of map_of_dict_set)

lemma Resistor_eq:
  "Resistor = \<lparr>prefix = Some ''R'',
      positional_parameters = [(''resistance'', Positional FloatPositionalParameter 0 PNone False)],
      optional_parameters = [(''tc1'', Keyed FloatKeyParameter ''tc1'' PNone),
                             (''tc2'', Keyed FloatKeyParameter ''tc2'' PNone)],
      parameters_from_args = [(''resistance'', Positional FloatPositionalParameter 0 PNone False)],
      properties = [''name'', ''pins'', ''nodes'', ''plus'', ''minus'']\<rparr>"
  by (simp add: Resistor_def ElementParameterMetaClass_new_def collect_positional_def
      collect_parameters_def sorted_parameters_def TwoPinElement_properties_def
      Element_properties_def Let_def)


lemma str_int_1: "str_int 1 = ''1''"
  by (simp add: str_int_def str_nat.simps)

lemma world_R1_eq:
  "world_R1 =
     \<lparr>elements = [\<lparr>e_class = Resistor, e_name = ''1'', e_pins = [0, 1],
                    e_dict = [(''_resistance'', PObj ''1k'' True None)]\<rparr>],
      pins = [\<lparr>pin_element = 0, pin_name = ''plus'', pin_node = ''1''\<rparr>,
              \<lparr>pin_element = 0, pin_name = ''minus'', pin_node = ''0''\<rparr>]\<rparr>"
  by (simp add: world_R1_def empty_world_def new_TwoPinElement_def Element_init_def Resistor_eq
      ParameterDescriptor_set_def str_int_1)

lemma world_R1_R1_eq:
  "world_R1_R1 =
     \<lparr>elements = [\<lparr>e_class = Resistor, e_name = ''1'', e_pins = [0, 1],
                    e_dict = [(''_resistance'', PObj ''1k'' True None)]\<rparr>,
                  \<lparr>e_class = Resistor, e_name = ''1'', e_pins = [2, 3],
                    e_dict = [(''_resistance'', PObj ''2k'' True None)]\<rparr>],
      pins = [\<lparr>pin_element = 0, pin_name = ''plus'', pin_node = ''1''\<rparr>,
              \<lparr>pin_element = 0, pin_name = ''minus'', pin_node = ''0''\<rparr>,
              \<lparr>pin_element = 1, pin_name = ''plus'', pin_node = ''2''\<rparr>,
              \<lparr>pin_element = 1, pin_name = ''minus'', pin_node = ''3''\<rparr>]\<rparr>"
  by (simp add: world_R1_R1_def world_R1_eq new_TwoPinElement_def Element_init_def Resistor_eq
      ParameterDescriptor_set_def str_int_1)

lemma Element_name_R1: "Element_name (elements world_R1 ! 0) = Inr ''R1''"
  by (simp add: world_R1_eq Element_name_def Resistor_eq)

lemma Element_name_R1_R1:
  "Element_name (elements world_R1_R1 ! 0) = Inr ''R1''"
  "Element_name (elements world_R1_R1 ! Suc 0) = Inr ''R1''"
  by (simp_all add: world_R1_R1_eq Element_name_def Resistor_eq)

lemma netlist_R1_eq:
  "netlist_R1 =
     \<lparr>n_ground = PNone, n_elements = [(''R1'', 0)], n_models = [], n_dirty = True,
      n_nodes = []\<rparr>"
  by (simp add: netlist_R1_def Netlist_add_element_def Element_name_R1 Netlist_init_def
      dict_has_def)

lemma circuit_test_eq:
  "circuit_test =
     \<lparr>n_ground = PInt 0, n_elements = [(''R1'', 0)], n_models = [], n_dirty = True,
      n_nodes = [], c_title = ''test'', c_global_nodes = [''VCC''],
      c_includes = [''models.lib''], c_parameters = [], c_subcircuits = []\<rparr>"
  by (simp add: circuit_test_def circuit_test0_def Circuit_include_def Circuit_init_def
      set_add_def Netlist_add_element_def Element_name_R1 dict_has_def)

section \<open>Adding an element\<close>

text \<open>
  C5. Adding an element of the store whose composite name is already a key of the element
  dictionary raises the \<open>NameError\<close> "already defined" and leaves the netlist as it was;
  adding one whose name is new appends the entry and sets the dirty flag.
\<close>

theorem add_element_duplicate_or_insert:
  assumes "a < length (elements w)"
    and "Element_name (elements w ! a) = Inr name"
  shows "(dict_has name (n_elements self) \<longrightarrow>
            Netlist_add_element w self a = (Inl (NameError_element_defined name), self))
       \<and> (\<not> dict_has name (n_elements self) \<longrightarrow>
            Netlist_add_element w self a =
              (Inr (), self\<lparr>n_elements := n_elements self @ [(name, a)], n_dirty := True\<rparr>))"
  using assms by (simp add: Netlist_add_element_def dict_set_fresh)

theorem add_element_duplicate_or_insert_witness:
  "(0::nat) < length (elements world_R1_R1)
   \<and> (1::nat) < length (elements world_R1_R1)
   \<and> Element_name (elements world_R1_R1 ! 0) = Inr ''R1''
   \<and> \<not> dict_has ''R1'' (n_elements Netlist_init)
   \<and> Netlist_add_element world_R1_R1 Netlist_init 0 = (Inr (), netlist_R1)
   \<and> Element_name (elements world_R1_R1 ! 1) = Inr ''R1''
   \<and> dict_has ''R1'' (n_elements netlist_R1)
   \<and> Netlist_add_element world_R1_R1 netlist_R1 1 =
        (Inl (NameError_element_defined ''R1''), netlist_R1)
   \<and> length (n_elements (snd (Netlist_add_element world_R1_R1 netlist_R1 1))) = 1"
  using add_element_duplicate_or_insert [of 0 world_R1_R1 "''R1''" Netlist_init]
        add_element_duplicate_or_insert [of 1 world_R1_R1 "''R1''" netlist_R1]
  by (simp add: Element_name_R1_R1 netlist_R1_eq Netlist_init_def dict_has_def
      world_R1_R1_eq [THEN arg_cong, of "\<lambda>w. length (elements w)"])

section \<open>Positional parameters\<close>

lemma parameters_from_args_unsorted:
  "parameters_from_args (ElementParameterMetaClass_new pfx props attributes) =
     filter (\<lambda>p. \<not> key_parameter (snd p)) (collect_positional attributes)"
  using sort_key_stable [of "\<lambda>p. key_parameter (snd p)" False "collect_positional attributes"]
  by (simp add: ElementParameterMetaClass_new_def sorted_parameters_def Let_def)

lemma zip_take_left: "zip xs (take (length xs) ys) = zip xs ys"
proof (induction xs arbitrary: ys)
  case Nil
  then show ?case by simp
next
  case (Cons x xs)
  then show ?case by (cases ys) simp_all
qed

lemma class_a_b_eq:
  "class_a_b = \<lparr>prefix = Some ''X'',
      positional_parameters = [(''a'', Positional ExpressionPositionalParameter 1 PNone False),
                               (''b'', Positional ExpressionPositionalParameter 0 PNone False)],
      optional_parameters = [],
      parameters_from_args = [(''a'', Positional ExpressionPositionalParameter 1 PNone False),
                              (''b'', Positional ExpressionPositionalParameter 0 PNone False)],
      properties = [''name'', ''pins'', ''nodes'']\<rparr>"
  by (simp add: class_a_b_def ElementParameterMetaClass_new_def collect_positional_def
      collect_parameters_def sorted_parameters_def Element_properties_def Let_def)

text \<open>
  C1. The list \<open>parameters_from_args\<close> holds the positional fields that are not key
  parameters, but in the iteration order of the class namespace, not by ascending
  \<open>position\<close>: the comparison used by \<open>sorted\<close> looks at \<open>key_parameter\<close> only. In the
  class whose namespace yields \<open>a\<close> (position 1) before \<open>b\<close> (position 0), the list is
  \<open>a\<close>, \<open>b\<close>, and the first positional argument is bound to \<open>a\<close>, the field of
  position 1.
\<close>

theorem parameters_from_args_not_by_position:
  "map (\<lambda>p. (fst p, position (snd p))) (parameters_from_args class_a_b) = [(''a'', 1), (''b'', 0)]
   \<and> Element_init class_a_b (PStr ''1'') [] [PStr ''x'', PStr ''y''] [] =
       Inr \<lparr>e_class = class_a_b, e_name = ''1'', e_pins = [],
            e_dict = [(''_a'', PStr ''x''), (''_b'', PStr ''y'')]\<rparr>"
  by (simp add: Element_init_def class_a_b_eq ParameterDescriptor_set_def)

text \<open>
  C2, as stated, fails: a resistor has one positional field, and its construction with
  two positional arguments returns an element, with the first argument bound.
\<close>

theorem surplus_argument_no_error:
  "length (parameters_from_args Resistor) = 1
   \<and> Element_init Resistor (PInt 1) [0, 1] [PObj ''1k'' True None, PObj ''2k'' True None] [] =
       Inr \<lparr>e_class = Resistor, e_name = ''1'', e_pins = [0, 1],
            e_dict = [(''_resistance'', PObj ''1k'' True None)]\<rparr>"
  by (simp add: Element_init_def Resistor_eq ParameterDescriptor_set_def str_int_1)

text \<open>
  C2, amended. \<open>zip\<close> stops at the shorter list: the positional arguments beyond the
  declared fields are ignored, and the construction has the outcome it has with the
  first N arguments alone.
\<close>

theorem surplus_arguments_ignored:
  "Element_init cls name ps args kwargs =
     Element_init cls name ps (take (length (parameters_from_args cls)) args) kwargs"
  by (simp add: Element_init_def zip_take_left)

section \<open>Rendering of parameters\<close>

lemma ParameterDescriptor_get_set:
  "ParameterDescriptor_get (ParameterDescriptor_set e p v) p = v"
  by (simp add: ParameterDescriptor_get_def ParameterDescriptor_set_def map_of_dict_set)

lemma ParameterDescriptor_get_unset:
  "map_of (e_dict e) (''_'' @ fst p) = None \<Longrightarrow>
     ParameterDescriptor_get e p = default_value (snd p)"
  by (simp add: ParameterDescriptor_get_def)

lemma nonzero_get:
  "nonzero e p =
     (if tests_truth (snd p) then py_bool (ParameterDescriptor_get e p)
      else ParameterDescriptor_get e p \<noteq> PNone)"
  by (cases p, cases "snd p") auto

lemma to_str_get:
  "ParameterDescriptor_get e p = ParameterDescriptor_get e' p \<Longrightarrow> to_str e p = to_str e' p"
  by (cases p, cases "snd p") (auto simp: str_value_def)

lemma collect_mem:
  "collect (map f xs) = Inr ys \<Longrightarrow> x \<in> set xs \<Longrightarrow> f x = Inr y \<Longrightarrow> y \<in> set ys"
proof (induction xs arbitrary: ys)
  case Nil
  then show ?case by simp
next
  case (Cons z zs)
  then show ?case
    by (cases "f z"; cases "collect (map f zs)") auto
qed

lemma class_m_eq:
  "class_m = \<lparr>prefix = Some ''X'', positional_parameters = [],
      optional_parameters = [(''m'', Keyed IntKeyParameter ''m'' (PInt 1))],
      parameters_from_args = [], properties = [''name'', ''pins'', ''nodes'']\<rparr>"
  by (simp add: class_m_def ElementParameterMetaClass_new_def collect_positional_def
      collect_parameters_def sorted_parameters_def Element_properties_def Let_def)

lemma class_noisy_eq:
  "class_noisy = \<lparr>prefix = Some ''X'', positional_parameters = [],
      optional_parameters = [(''noisy'', Keyed BoolKeyParameter ''noisy'' (PBool False))],
      parameters_from_args = [], properties = [''name'', ''pins'', ''nodes'']\<rparr>"
  by (simp add: class_noisy_def ElementParameterMetaClass_new_def collect_positional_def
      collect_parameters_def sorted_parameters_def Element_properties_def Let_def)

text \<open>
  C3, as stated, fails: the field \<open>m\<close> of the element built with no argument was never
  assigned, its default is 1, and the rendering holds the token \<open>m=1\<close>.
\<close>

theorem unset_field_default_rendered:
  "Element_init class_m (PStr ''1'') [] [] [] = Inr element_unset
   \<and> map_of (e_dict element_unset) ''_m'' = None
   \<and> spice_tokens element_unset = Inr [''m=1'']
   \<and> format_spice_parameters element_unset = Inr ''m=1''"
  by (simp add: Element_init_def element_unset_def class_m_eq format_spice_parameters_def
      spice_tokens_def parameter_iterator_def ParameterDescriptor_get_def descriptor_bool_def
      str_value_def str_int_1 join_list_def)

text \<open>
  C3, amended. A field that was never assigned is rendered as if its default had been
  assigned: it is yielded by \<open>parameter_iterator\<close> exactly when the default is not \<open>None\<close>
  (for a flag or a boolean field: when the default is true), and its token is the one of
  the default set as the value.
\<close>

theorem unset_field_as_default:
  assumes "map_of (e_dict e) (''_'' @ fst p) = None"
  shows "(p \<in> set (parameter_iterator e)) =
           (p \<in> set (positional_parameters (e_class e) @ optional_parameters (e_class e))
            \<and> (if tests_truth (snd p) then py_bool (default_value (snd p))
               else default_value (snd p) \<noteq> PNone))
       \<and> to_str e p = to_str (ParameterDescriptor_set e p (default_value (snd p))) p"
proof -
  have g: "ParameterDescriptor_get e p = default_value (snd p)"
    using assms by (rule ParameterDescriptor_get_unset)
  have "to_str e p = to_str (ParameterDescriptor_set e p (default_value (snd p))) p"
    by (rule to_str_get) (simp add: g ParameterDescriptor_get_set)
  moreover have "(p \<in> set (parameter_iterator e)) =
           (p \<in> set (positional_parameters (e_class e) @ optional_parameters (e_class e))
            \<and> (if tests_truth (snd p) then py_bool (default_value (snd p))
               else default_value (snd p) \<noteq> PNone))"
    unfolding parameter_iterator_def by (auto simp: nonzero_get g)
  ultimately show ?thesis by simp
qed

theorem unset_field_as_default_witness:
  "map_of (e_dict element_unset) (''_'' @ fst (''m'', Keyed IntKeyParameter ''m'' (PInt 1))) = None
   \<and> (''m'', Keyed IntKeyParameter ''m'' (PInt 1)) \<in> set (parameter_iterator element_unset)
   \<and> to_str element_unset (''m'', Keyed IntKeyParameter ''m'' (PInt 1)) = Inr ''m=1''
   \<and> map_of (e_dict (elements world_R1 ! 0))
        (''_'' @ fst (''tc1'', Keyed FloatKeyParameter ''tc1'' PNone)) = None
   \<and> (''tc1'', Keyed FloatKeyParameter ''tc1'' PNone)
        \<in> set (optional_parameters (e_class (elements world_R1 ! 0)))
   \<and> (''tc1'', Keyed FloatKeyParameter ''tc1'' PNone)
        \<notin> set (parameter_iterator (elements world_R1 ! 0))"
  using unset_field_as_default [of element_unset "(''m'', Keyed IntKeyParameter ''m'' (PInt 1))"]
        unset_field_as_default [of "elements world_R1 ! 0"
          "(''tc1'', Keyed FloatKeyParameter ''tc1'' PNone)"]
  by (simp add: element_unset_def class_m_eq ParameterDescriptor_set_def
      ParameterDescriptor_get_def descriptor_bool_def str_value_def str_int_1
      world_R1_eq Resistor_eq)

text \<open>
  C9, as stated, fails: in the element built with \<open>noisy=False\<close> the stored value is
  false and the rendering holds no token at all.
\<close>

theorem bool_false_no_token:
  "Element_init class_noisy (PStr ''1'') [] [] [(''noisy'', PBool False)] = Inr element_noisy_false
   \<and> ParameterDescriptor_get element_noisy_false
        (''noisy'', Keyed BoolKeyParameter ''noisy'' (PBool False)) = PBool False
   \<and> spice_tokens element_noisy_false = Inr []
   \<and> format_spice_parameters element_noisy_false = Inr []"
  by (simp add: Element_init_def element_noisy_false_def class_noisy_eq
      format_spice_parameters_def spice_tokens_def parameter_iterator_def
      ParameterDescriptor_get_def ParameterDescriptor_set_def Element_setattr_def
      dict_has_def join_list_def)

text \<open>
  C9, amended. A boolean field whose stored value is true is yielded by
  \<open>parameter_iterator\<close> and the rendered tokens hold its token \<open>0\<close>; one whose stored
  value is false is not yielded, so that no token is rendered for it (\<open>to_str\<close> would
  give \<open>1\<close>, and is not asked).
\<close>

theorem bool_field_tokens:
  assumes "p = (an, Keyed BoolKeyParameter sn d)"
    and "p \<in> set (positional_parameters (e_class e) @ optional_parameters (e_class e))"
    and "spice_tokens e = Inr tokens"
  shows "(py_bool (ParameterDescriptor_get e p) \<longrightarrow>
            p \<in> set (parameter_iterator e) \<and> to_str e p = Inr ''0'' \<and> ''0'' \<in> set tokens)
       \<and> (\<not> py_bool (ParameterDescriptor_get e p) \<longrightarrow>
            p \<notin> set (parameter_iterator e) \<and> to_str e p = Inr ''1'')"
proof (cases "py_bool (ParameterDescriptor_get e p)")
  case True
  have m: "p \<in> set (parameter_iterator e)"
    using True assms(1,2) unfolding parameter_iterator_def by simp
  have t: "to_str e p = Inr ''0''"
    using True assms(1) by simp
  have "''0'' \<in> set tokens"
    using assms(3) m t unfolding spice_tokens_def by (rule collect_mem)
  with True m t show ?thesis by simp
next
  case False
  then show ?thesis
    using assms(1) unfolding parameter_iterator_def by simp
qed

theorem bool_field_tokens_witness:
  "(''noisy'', Keyed BoolKeyParameter ''noisy'' (PBool False))
      \<in> set (positional_parameters (e_class element_noisy_true)
              @ optional_parameters (e_class element_noisy_true))
   \<and> Element_init class_noisy (PStr ''1'') [] [] [(''noisy'', PBool True)] = Inr element_noisy_true
   \<and> spice_tokens element_noisy_true = Inr [''0'']
   \<and> py_bool (ParameterDescriptor_get element_noisy_true
        (''noisy'', Keyed BoolKeyParameter ''noisy'' (PBool False)))
   \<and> ''0'' \<in> set [''0'']
   \<and> spice_tokens element_noisy_false = Inr []
   \<and> \<not> py_bool (ParameterDescriptor_get element_noisy_false
        (''noisy'', Keyed BoolKeyParameter ''noisy'' (PBool False)))
   \<and> (''noisy'', Keyed BoolKeyParameter ''noisy'' (PBool False))
        \<notin> set (parameter_iterator element_noisy_false)"
  using bool_field_tokens [of "(''noisy'', Keyed BoolKeyParameter ''noisy'' (PBool False))"
          "''noisy''" "''noisy''" "PBool False" element_noisy_true "[''0'']"]
        bool_field_tokens [of "(''noisy'', Keyed BoolKeyParameter ''noisy'' (PBool False))"
          "''noisy''" "''noisy''" "PBool False" element_noisy_false "[]"]
  by (simp add: element_noisy_true_def element_noisy_false_def class_noisy_eq spice_tokens_def
      parameter_iterator_def ParameterDescriptor_get_def Element_init_def Element_setattr_def
      ParameterDescriptor_set_def dict_has_def)

section \<open>The connectivity check of a sub-circuit\<close>

lemma subcircuit_R1_eq:
  "subcircuit_R1 =
     \<lparr>n_ground = PInt 0, n_elements = [(''R1'', 0)], n_models = [], n_dirty = True,
      n_nodes = [], sc_name = ''amp'', external_nodes = [''1'', ''0'']\<rparr>"
  by (simp add: subcircuit_R1_def SubCircuit_init_def Netlist_add_element_def Element_name_R1
      dict_has_def)

lemma check_nodes_with_elements:
  "n_elements self \<noteq> [] \<Longrightarrow> check_nodes w self = Inl TypeError"
  by (cases "n_elements self") (simp_all add: check_nodes_def element_iterator_def set_and_list_def)

lemma check_nodes_without_elements:
  "n_elements self = [] \<Longrightarrow>
     check_nodes w self =
       (if external_nodes self = [] then Inr ()
        else Inl (NameError_nodes_not_connected (set (external_nodes self))))"
  by (simp add: check_nodes_def element_iterator_def)

lemma check_nodes_amp:
  "check_nodes w subcircuit_amp = Inl (NameError_nodes_not_connected {''in'', ''out''})"
  by (simp add: check_nodes_without_elements subcircuit_amp_def SubCircuit_init_def)

text \<open>
  C6. The sub-circuit \<open>amp\<close> with the external nodes \<open>1\<close> and \<open>0\<close> holds the resistor
  \<open>R1\<close> between the nodes \<open>1\<close> and \<open>0\<close>, so every external node is in the node list of a
  contained element; \<open>check_nodes\<close> does not return normally, it raises \<open>TypeError\<close> at
  \<open>nodes & element.nodes\<close>.
\<close>

theorem check_nodes_connected_raises:
  "external_nodes subcircuit_R1 = [''1'', ''0'']
   \<and> map (\<lambda>a. Element_nodes world_R1 (elements world_R1 ! a)) (element_iterator subcircuit_R1) =
       [[''1'', ''0'']]
   \<and> check_nodes world_R1 subcircuit_R1 = Inl TypeError"
  by (simp add: subcircuit_R1_eq check_nodes_def element_iterator_def set_and_list_def
      Element_nodes_def world_R1_eq)

section \<open>The node index\<close>

lemma Netlist_nodes_keeps_dirty: "n_dirty (snd (Netlist_nodes w self)) = n_dirty self"
  by (simp add: Netlist_nodes_def Let_def)

lemma Netlist_nodes_dirty:
  "n_dirty self \<Longrightarrow>
     Netlist_nodes w self =
       (map snd (rebuild_nodes w self), self\<lparr>n_nodes := rebuild_nodes w self\<rparr>)"
  by (simp add: Netlist_nodes_def Let_def)

lemma rebuild_nodes_R1:
  "rebuild_nodes world_R1 (self\<lparr>n_elements := [(''R1'', 0)]\<rparr>) =
     [(''1'', \<lparr>node_name = ''1'', node_elements = {0}\<rparr>),
      (''0'', \<lparr>node_name = ''0'', node_elements = {0}\<rparr>)]"
  by (simp add: rebuild_nodes_def element_iterator_def Element_nodes_def world_R1_eq
      register_node_def Node_init_def Node_add_element_def)

text \<open>
  C8. After \<open>R1\<close> has been added to a new netlist the flag is set; the read of the node
  collection rebuilds the index and leaves the flag set, \<open>Netlist.nodes\<close> having no
  assignment to \<open>_dirty\<close>; the second read, with no insertion in between, finds the flag
  set and takes the rebuilding branch again.
\<close>

theorem nodes_read_leaves_dirty:
  "n_dirty netlist_R1
   \<and> Netlist_nodes world_R1 netlist_R1 =
       ([\<lparr>node_name = ''1'', node_elements = {0}\<rparr>, \<lparr>node_name = ''0'', node_elements = {0}\<rparr>],
        netlist_R1\<lparr>n_nodes := [(''1'', \<lparr>node_name = ''1'', node_elements = {0}\<rparr>),
                                (''0'', \<lparr>node_name = ''0'', node_elements = {0}\<rparr>)]\<rparr>)
   \<and> n_dirty (snd (Netlist_nodes world_R1 netlist_R1))
   \<and> Netlist_nodes world_R1 (snd (Netlist_nodes world_R1 netlist_R1)) =
       (map snd (rebuild_nodes world_R1 (snd (Netlist_nodes world_R1 netlist_R1))),
        (snd (Netlist_nodes world_R1 netlist_R1))
          \<lparr>n_nodes := rebuild_nodes world_R1 (snd (Netlist_nodes world_R1 netlist_R1))\<rparr>)"
proof -
  have d: "n_dirty netlist_R1"
    by (simp add: netlist_R1_eq)
  have r: "rebuild_nodes world_R1 netlist_R1 =
     [(''1'', \<lparr>node_name = ''1'', node_elements = {0}\<rparr>),
      (''0'', \<lparr>node_name = ''0'', node_elements = {0}\<rparr>)]"
    using rebuild_nodes_R1 [of netlist_R1] by (simp add: netlist_R1_eq)
  have d': "n_dirty (snd (Netlist_nodes world_R1 netlist_R1))"
    using d by (simp add: Netlist_nodes_keeps_dirty)
  show ?thesis
    using d d' r Netlist_nodes_dirty [OF d, of world_R1] Netlist_nodes_dirty [OF d', of world_R1]
    by simp
qed

section \<open>Lookup by identifier\<close>

lemma dict_set_keys: "fst ` set (dict_set k v d) = insert k (fst ` set d)"
proof -
  have "\<And>x. (x \<in> fst ` set (dict_set k v d)) = (x = k \<or> x \<in> fst ` set d)"
    using dict_has_dict_set [of _ k v d] by (simp add: dict_has_def)
  then show ?thesis by blast
qed

lemma dict_set_entry: "(k, v) \<in> set (dict_set k v d)"
  by (induction d) auto

lemma dict_set_values: "v \<in> snd ` set (dict_set k v d)"
  using dict_set_entry [of k v d] by force

lemma register_node_keys: "fst ` set (register_node a x index) = insert x (fst ` set index)"
  by (simp add: register_node_def dict_set_keys split: option.split)

lemma fold_register_node_keys:
  "fst ` set (fold (register_node a) xs index) = set xs \<union> fst ` set index"
  by (induction xs arbitrary: index) (auto simp: register_node_keys)

lemma fold_elements_keys:
  "fst ` set (fold (\<lambda>a index. fold (register_node a) (f a) index) as index) =
     (\<Union>a \<in> set as. set (f a)) \<union> fst ` set index"
  by (induction as arbitrary: index) (auto simp: fold_register_node_keys)

lemma rebuild_nodes_keys:
  "fst ` set (rebuild_nodes w self) =
     (\<Union>a \<in> set (element_iterator self). set (Element_nodes w (elements w ! a)))"
  by (simp add: rebuild_nodes_def fold_elements_keys)

text \<open>
  C10. An element of the store has been added and the cached index does not hold its node name \<open>x\<close>
  (the node collection has not been read since); \<open>x\<close> is not the name of an element or
  of a model, which the lookup tries first. Then the lookup of \<open>x\<close> raises \<open>IndexError\<close>,
  although the read of the node collection would put \<open>x\<close> into the index, after which
  the same lookup returns the node name.
\<close>

theorem lookup_node_before_read:
  assumes "Netlist_add_element w self a = (Inr (), self')"
    and "x \<in> set (Element_nodes w (elements w ! a))"
    and "\<not> dict_has x (n_nodes self)"
    and "\<not> dict_has x (n_elements self')"
    and "\<not> dict_has x (n_models self')"
    and "a < length (elements w)"
  shows "Netlist_getitem self' x = Inl (IndexError x)
       \<and> Netlist_getitem (snd (Netlist_nodes w self')) x = Inr (ItemNode x)"
proof -
  obtain name where n: "Element_name (elements w ! a) = Inr name"
    and fresh: "\<not> dict_has name (n_elements self)"
    and s': "self' = self\<lparr>n_elements := dict_set name a (n_elements self), n_dirty := True\<rparr>"
    using assms(1)
    by (auto simp: Netlist_add_element_def split: sum.splits if_splits)
  have e: "map_of (n_elements self') x = None"
    using assms(4) by (simp add: dict_has_map_of)
  have m: "map_of (n_models self') x = None"
    using assms(5) by (simp add: dict_has_map_of)
  have c: "\<not> dict_has x (n_nodes self')"
    using assms(3) by (simp add: s')
  have first: "Netlist_getitem self' x = Inl (IndexError x)"
    by (simp add: Netlist_getitem_def e m c)
  have "a \<in> set (element_iterator self')"
    by (simp add: s' element_iterator_def dict_set_values)
  then have "x \<in> fst ` set (rebuild_nodes w self')"
    using assms(2) by (auto simp: rebuild_nodes_keys)
  then have "dict_has x (rebuild_nodes w self')"
    by (simp add: dict_has_def)
  moreover have "n_dirty self'"
    by (simp add: s')
  ultimately have second: "Netlist_getitem (snd (Netlist_nodes w self')) x = Inr (ItemNode x)"
    using e m by (simp add: Netlist_nodes_dirty Netlist_getitem_def)
  from first second show ?thesis by simp
qed

theorem lookup_node_before_read_witness:
  "Netlist_add_element world_R1 Netlist_init 0 = (Inr (), netlist_R1)
   \<and> ''0'' \<in> set (Element_nodes world_R1 (elements world_R1 ! 0))
   \<and> \<not> dict_has ''0'' (n_nodes Netlist_init)
   \<and> \<not> dict_has ''0'' (n_elements netlist_R1)
   \<and> \<not> dict_has ''0'' (n_models netlist_R1)
   \<and> (0::nat) < length (elements world_R1)
   \<and> Netlist_getitem netlist_R1 ''0'' = Inl (IndexError ''0'')
   \<and> Netlist_getitem (snd (Netlist_nodes world_R1 netlist_R1)) ''0'' = Inr (ItemNode ''0'')"
proof -
  have a: "Netlist_add_element world_R1 Netlist_init 0 = (Inr (), netlist_R1)"
    by (simp add: Netlist_add_element_def Element_name_R1 netlist_R1_eq Netlist_init_def
        dict_has_def)
  have b: "''0'' \<in> set (Element_nodes world_R1 (elements world_R1 ! 0))"
    by (simp add: Element_nodes_def world_R1_eq)
  have c: "\<not> dict_has ''0'' (n_nodes Netlist_init)"
    by (simp add: Netlist_init_def dict_has_def)
  have d: "\<not> dict_has ''0'' (n_elements netlist_R1)"
    by (simp add: netlist_R1_eq dict_has_def)
  have e: "\<not> dict_has ''0'' (n_models netlist_R1)"
    by (simp add: netlist_R1_eq dict_has_def)
  have f: "(0::nat) < length (elements world_R1)"
    by (simp add: world_R1_eq)
  show ?thesis
    using a b c d e f lookup_node_before_read [OF a b c d e f] by simp
qed

section \<open>Rendering of a circuit\<close>

lemma Circuit_head_sections:
  "Circuit_head c =
     ''.title '' @ c_title c @ nl
     @ (if c_includes c = [] then [] else join_lines ''.include '' (c_includes c) @ nl)
     @ (if c_global_nodes c = [] then [] else ''.global '' @ join_list (c_global_nodes c) @ nl)
     @ (if c_parameters c = [] then []
        else join_lines ''.param '' (map fst (c_parameters c)) @ nl)"
  by (simp add: Circuit_head_def Let_def)

lemma join_lines_plain: "join_lines [] items = str_join nl items"
  by (simp add: join_lines_def nl_def)

lemma join_lines_prefix: "join_lines pre items = str_join nl (map ((@) pre) items)"
  by (simp add: join_lines_def nl_def)

lemma Netlist_str_body:
  "Netlist_str w self =
     (case element_lines w self of
        Inl err \<Rightarrow> Inl err
      | Inr lines \<Rightarrow> Inr (netlist_body_text lines (map snd (n_models self))))"
  by (simp add: Netlist_str_def element_lines_def element_iterator_def model_iterator_def
      netlist_body_text_def DeviceModel_str_def join_lines_plain Let_def comp_def
      split: sum.split)

lemma SubCircuit_str_text:
  "SubCircuit_str w sc =
     (case element_lines w sc of
        Inl err \<Rightarrow> Inl err
      | Inr lines \<Rightarrow> Inr (subcircuit_text sc lines))"
  by (simp add: SubCircuit_str_def Netlist_str_body subcircuit_text_def join_list_def Let_def
      split: sum.split)

lemma collect_SubCircuit_str:
  "collect (map (element_lines w) scs) = Inr sub_lines \<Longrightarrow>
     collect (map (SubCircuit_str w) scs) =
       Inr (map (\<lambda>(sc, lines). subcircuit_text sc lines) (zip scs sub_lines))"
proof (induction scs arbitrary: sub_lines)
  case Nil
  then show ?case by simp
next
  case (Cons sc scs)
  then show ?case
    by (cases "element_lines w sc"; cases "collect (map (element_lines w) scs)")
       (auto simp: SubCircuit_str_text)
qed

lemma Circuit_str_render:
  assumes "collect (map (element_lines w) (map snd (c_subcircuits c))) = Inr sub_lines"
    and "element_lines w c = Inr lines"
  shows "Circuit_str w c =
      Inr (''.title '' @ c_title c @ nl
           @ (if c_includes c = [] then []
              else str_join nl (map (\<lambda>path. ''.include '' @ path) (c_includes c)) @ nl)
           @ (if c_global_nodes c = [] then []
              else ''.global '' @ str_join '' '' (c_global_nodes c) @ nl)
           @ (if c_parameters c = [] then []
              else str_join nl (map (\<lambda>name. ''.param '' @ name) (map fst (c_parameters c))) @ nl)
           @ (if c_subcircuits c = [] then []
              else str_join nl (map (\<lambda>(sc, ls). subcircuit_text sc ls)
                                    (zip (map snd (c_subcircuits c)) sub_lines)))
           @ netlist_body_text lines (map snd (n_models c))
           @ ''.end'' @ nl)"
proof -
  have subs: "collect (map (SubCircuit_str w) (subcircuit_iterator c)) =
      Inr (map (\<lambda>(sc, ls). subcircuit_text sc ls) (zip (map snd (c_subcircuits c)) sub_lines))"
    unfolding subcircuit_iterator_def using assms(1) by (rule collect_SubCircuit_str)
  have body: "Netlist_str w c = Inr (netlist_body_text lines (map snd (n_models c)))"
    by (simp add: Netlist_str_body assms(2))
  show ?thesis
    by (simp add: Circuit_str_def Circuit_head_sections subs body join_lines_prefix
        join_list_def Let_def comp_def)
qed

lemma element_lines_R1: "element_lines world_R1 circuit_test = Inr [''R1 1 0 1k'']"
  by (simp add: element_lines_def circuit_test_eq world_R1_eq Element_str_def
      format_node_names_def Element_name_def Element_nodes_def format_spice_parameters_def
      spice_tokens_def parameter_iterator_def ParameterDescriptor_get_def Resistor_eq
      join_list_def)

lemma Element_str_R1_R1:
  "Element_str world_R1_R1 (elements world_R1_R1 ! 0) = Inr ''R1 1 0 1k''"
  "Element_str world_R1_R1 (elements world_R1_R1 ! Suc 0) = Inr ''R1 2 3 2k''"
  by (simp_all add: world_R1_R1_eq Element_str_def format_node_names_def Element_name_def
      Element_nodes_def format_spice_parameters_def spice_tokens_def parameter_iterator_def
      ParameterDescriptor_get_def Resistor_eq join_list_def)

lemma subcircuit_amp_R1_eq:
  "subcircuit_amp_R1 =
     \<lparr>n_ground = PInt 0, n_elements = [(''R1'', 1)], n_models = [], n_dirty = True,
      n_nodes = [], sc_name = ''amp'', external_nodes = [''2'', ''3'']\<rparr>"
  by (simp add: subcircuit_amp_R1_def SubCircuit_init_def Netlist_add_element_def
      Element_name_R1_R1 dict_has_def)

lemma circuit_full_eq:
  "circuit_full =
     \<lparr>n_ground = PInt 0, n_elements = [(''R1'', 0)],
      n_models = [(''D1'', \<lparr>dm_name = ''D1'', dm_model_type = ''D'',
                             dm_parameters = [(''n'', PInt 1)]\<rparr>)],
      n_dirty = True, n_nodes = [], c_title = ''test'', c_global_nodes = [''VCC''],
      c_includes = [''models.lib''], c_parameters = [(''gain'', ''1'')],
      c_subcircuits = [(''amp'', subcircuit_amp_R1)]\<rparr>"
  by (simp add: circuit_full_def circuit_test0_def Circuit_include_def Circuit_init_def
      set_add_def Netlist_add_element_def Element_name_R1_R1 dict_has_def Netlist_model_def
      DeviceModel_init_def Circuit_parameter_def Circuit_subcircuit_def str_int_1 Let_def
      subcircuit_amp_R1_eq)

text \<open>
  C4, as stated, fails: the netlist body is backed by the dictionary of elements, and
  the circuit \<open>t\<close> with no element does not render without it: the body is there, as
  one empty line between the title and \<open>.end\<close>.
\<close>

theorem Circuit_str_empty_body:
  "n_elements circuit_empty = []
   \<and> Circuit_str empty_world circuit_empty = Inr (''.title t'' @ nl @ nl @ ''.end'' @ nl)"
  by (simp add: circuit_empty_def Circuit_init_def Circuit_str_def Circuit_head_def
      Netlist_str_def element_iterator_def subcircuit_iterator_def join_lines_def Let_def)

text \<open>
  C4, amended. When the elements of the circuit and of its sub-circuits render, the text
  of the circuit is the title line, then the include lines, the \<open>.global\<close> line, the
  \<open>.param\<close> lines and the texts of the sub-circuits, each of these four left out when
  its collection is empty, then the netlist body, which is always there (the element
  lines and a newline, then the model lines when there is a model), then the line
  \<open>.end\<close>. The circuit \<open>test\<close> with the include \<open>models.lib\<close>, the global node \<open>VCC\<close>
  and the resistor \<open>R1\<close> between the nodes \<open>1\<close> and \<open>0\<close> of value \<open>1k\<close> renders as the
  five lines of the claim, each ended by a newline.
\<close>

theorem Circuit_str_sections:
  "(collect (map (element_lines w) (map snd (c_subcircuits c))) = Inr sub_lines
      \<and> element_lines w c = Inr lines \<longrightarrow>
    Circuit_str w c =
      Inr (''.title '' @ c_title c @ nl
           @ (if c_includes c = [] then []
              else str_join nl (map (\<lambda>path. ''.include '' @ path) (c_includes c)) @ nl)
           @ (if c_global_nodes c = [] then []
              else ''.global '' @ str_join '' '' (c_global_nodes c) @ nl)
           @ (if c_parameters c = [] then []
              else str_join nl (map (\<lambda>name. ''.param '' @ name) (map fst (c_parameters c))) @ nl)
           @ (if c_subcircuits c = [] then []
              else str_join nl (map (\<lambda>(sc, ls). subcircuit_text sc ls)
                                    (zip (map snd (c_subcircuits c)) sub_lines)))
           @ netlist_body_text lines (map snd (n_models c))
           @ ''.end'' @ nl))
   \<and> Circuit_str world_R1 circuit_test =
       Inr (''.title test'' @ nl @ ''.include models.lib'' @ nl @ ''.global VCC'' @ nl
            @ ''R1 1 0 1k'' @ nl @ ''.end'' @ nl)"
proof -
  have s: "collect (map (element_lines world_R1) (map snd (c_subcircuits circuit_test))) = Inr []"
    by (simp add: circuit_test_eq)
  have "Circuit_str world_R1 circuit_test =
       Inr (''.title test'' @ nl @ ''.include models.lib'' @ nl @ ''.global VCC'' @ nl
            @ ''R1 1 0 1k'' @ nl @ ''.end'' @ nl)"
    using Circuit_str_render [OF s element_lines_R1]
    by (simp add: circuit_test_eq netlist_body_text_def)
  then show ?thesis
    by (simp add: Circuit_str_render)
qed

theorem Circuit_str_sections_witness:
  "collect (map (element_lines world_R1_R1) (map snd (c_subcircuits circuit_full))) =
     Inr [[''R1 2 3 2k'']]
   \<and> element_lines world_R1_R1 circuit_full = Inr [''R1 1 0 1k'']
   \<and> Circuit_str world_R1_R1 circuit_full =
       Inr (''.title test'' @ nl @ ''.include models.lib'' @ nl @ ''.global VCC'' @ nl
            @ ''.param gain'' @ nl
            @ ''.subckt amp 2 3'' @ nl @ ''R1 2 3 2k'' @ nl @ ''.ends'' @ nl
            @ ''R1 1 0 1k'' @ nl @ ''.model D1 D (n=1)'' @ nl
            @ ''.end'' @ nl)"
proof -
  have s: "collect (map (element_lines world_R1_R1) (map snd (c_subcircuits circuit_full))) =
      Inr [[''R1 2 3 2k'']]"
    by (simp add: circuit_full_eq element_lines_def subcircuit_amp_R1_eq Element_str_R1_R1)
  have e: "element_lines world_R1_R1 circuit_full = Inr [''R1 1 0 1k'']"
    by (simp add: circuit_full_eq element_lines_def Element_str_R1_R1)
  have "Circuit_str world_R1_R1 circuit_full =
       Inr (''.title test'' @ nl @ ''.include models.lib'' @ nl @ ''.global VCC'' @ nl
            @ ''.param gain'' @ nl
            @ ''.subckt amp 2 3'' @ nl @ ''R1 2 3 2k'' @ nl @ ''.ends'' @ nl
            @ ''R1 1 0 1k'' @ nl @ ''.model D1 D (n=1)'' @ nl
            @ ''.end'' @ nl)"
    using s e Circuit_str_sections [of world_R1_R1 circuit_full "[[''R1 2 3 2k'']]" "[''R1 1 0 1k'']"]
    by (simp add: circuit_full_eq netlist_body_text_def subcircuit_text_def
        subcircuit_amp_R1_eq join_dict_def str_int_1)
  with s e show ?thesis by simp
qed

section \<open>The current probe\<close>







end
